theory Spec2Isabelle
  imports Main "HOL-Library.Word"
begin

unbundle bit_operations_syntax

section \<open>Machine types\<close>

text \<open>
  Go's \<open>uint8\<close>/\<open>byte\<close>, \<open>uint16\<close> and \<open>uint32\<close> are words of that width:
  \<open>+\<close>, \<open>-\<close> and \<open>*\<close> wrap around, \<open>>>\<close> is \<open>drop_bit\<close>, \<open><<\<close> is \<open>push_bit\<close>,
  \<open>&\<close> is \<open>AND\<close>, \<open>|\<close> is \<open>OR\<close> and \<open>x &^ y\<close> is \<open>x AND NOT y\<close>. A conversion
  between widths (\<open>uint8(w)\<close>, \<open>uint16(b)\<close>) is \<open>ucast\<close>: it truncates or
  zero-extends.
\<close>

type_synonym u8 = "8 word"
type_synonym u16 = "16 word"
type_synonym u32 = "32 word"

text \<open>
  Go's \<open>int64\<close>, and \<open>int\<close> on a 64-bit target, are 64-bit words read as two's
  complement: \<open>+\<close> and \<open>-\<close> wrap around, \<open><\<close> and \<open>>\<close> compare the signed values
  (\<open><s\<close>), and \<open>uint32(x)\<close> keeps the low 32 bits (\<open>ucast\<close>).
\<close>

type_synonym i64 = "64 word"

section \<open>Program status word masks\<close>

text \<open>The \<open>const\<close> block \<open>ParityBit uint8 = (0x01 << iota)\<close> and its successors.\<close>

definition ParityBit :: u8 where "ParityBit = 0x01"
definition UserBit :: u8 where "UserBit = 0x02"
definition OverFlowBit :: u8 where "OverFlowBit = 0x04"
definition RS0Bit :: u8 where "RS0Bit = 0x08"
definition RS1Bit :: u8 where "RS1Bit = 0x10"
definition FlagBit :: u8 where "FlagBit = 0x20"
definition AuxCarryBit :: u8 where "AuxCarryBit = 0x40"
definition CarryBit :: u8 where "CarryBit = 0x80"

section \<open>The ALU\<close>

text \<open>
  \<open>type ALU struct\<close>. \<open>InternalRAM [256]byte\<close> is only ever indexed by a \<open>uint8\<close>,
  so every index is in range and the array is a total function from bytes to bytes.
  The methods have a pointer receiver and mutate the struct; the model passes the
  state in and returns the updated state.
\<close>

record ALU =
  InternalRAM :: "u8 \<Rightarrow> u8"
  StackPtr :: u8
  DataPtr :: u16
  ProgStatus :: u8
  Accum :: u8
  BReg :: u8
  ProgCount :: u16

text \<open>Go's zero value \<open>ALU{}\<close>: every field and every RAM cell is 0.\<close>

definition zeroALU :: ALU where
  "zeroALU = \<lparr>InternalRAM = (\<lambda>_. 0), StackPtr = 0, DataPtr = 0, ProgStatus = 0,
     Accum = 0, BReg = 0, ProgCount = 0\<rparr>"

subsection \<open>Stack primitives\<close>

definition PushByte :: "ALU \<Rightarrow> u8 \<Rightarrow> ALU" where
  "PushByte a b =
     (let sp = StackPtr a + 1
      in a\<lparr>StackPtr := sp, InternalRAM := (InternalRAM a)(sp := b)\<rparr>)"

definition PopByte :: "ALU \<Rightarrow> u8 \<times> ALU" where
  "PopByte a = (InternalRAM a (StackPtr a), a\<lparr>StackPtr := StackPtr a - 1\<rparr>)"

definition PushWord :: "ALU \<Rightarrow> u16 \<Rightarrow> ALU" where
  "PushWord a w =
     (let ram1 = (InternalRAM a)(StackPtr a + 1 := ucast w);
          ram2 = ram1(StackPtr a + 2 := ucast (drop_bit 8 w))
      in a\<lparr>InternalRAM := ram2, StackPtr := StackPtr a + 2\<rparr>)"

definition PopWord :: "ALU \<Rightarrow> u16 \<times> ALU" where
  "PopWord a =
     (let ret0 = push_bit 8 (ucast (InternalRAM a (StackPtr a)) :: u16);
          ret1 = ret0 OR ucast (InternalRAM a (StackPtr a - 1))
      in (ret1, a\<lparr>StackPtr := StackPtr a - 2\<rparr>))"

subsection \<open>Control transfer\<close>

text \<open>
  In Go \<open>&\<close> binds tighter than \<open>+\<close>, so
  \<open>(a.ProgCount+2)&0xF800 + rel&0x07FF\<close> is \<open>((pc+2) & 0xF800) + (rel & 0x07FF)\<close>.
\<close>

definition InstrACALL :: "ALU \<Rightarrow> u16 \<Rightarrow> ALU" where
  "InstrACALL a rel =
     (let a1 = PushWord a (ProgCount a + 2)
      in a1\<lparr>ProgCount := ((ProgCount a1 + 2) AND 0xF800) + (rel AND 0x7FF)\<rparr>)"

definition InstrAJMP :: "ALU \<Rightarrow> u16 \<Rightarrow> ALU" where
  "InstrAJMP a rel = a\<lparr>ProgCount := ((ProgCount a + 2) AND 0xF800) + (rel AND 0x07FF)\<rparr>"

definition InstrRET :: "ALU \<Rightarrow> ALU" where
  "InstrRET a = (let (w, a1) = PopWord a in a1\<lparr>ProgCount := w\<rparr>)"

definition InstrLCALL :: "ALU \<Rightarrow> u16 \<Rightarrow> ALU" where
  "InstrLCALL a addr = (let a1 = PushWord a (ProgCount a + 3) in a1\<lparr>ProgCount := addr\<rparr>)"

definition InstrLJMP :: "ALU \<Rightarrow> u16 \<Rightarrow> ALU" where
  "InstrLJMP a addr = a\<lparr>ProgCount := addr\<rparr>"

subsection \<open>Arithmetic and register addressing\<close>

text \<open>
  \<open>InstrMUL\<close>: \<open>res\<close> is a \<open>uint16\<close>; the source shifts it right by 16 before
  truncating it into \<open>BReg\<close>.
\<close>

definition InstrMUL :: "ALU \<Rightarrow> ALU" where
  "InstrMUL a =
     (let res = (ucast (Accum a) :: u16) * ucast (BReg a);
          a1 = a\<lparr>BReg := ucast (drop_bit 16 res)\<rparr>;
          a2 = a1\<lparr>Accum := ucast res\<rparr>;
          a3 = a2\<lparr>ProgStatus := ProgStatus a2 AND NOT CarryBit\<rparr>
      in if res > 255
         then a3\<lparr>ProgStatus := ProgStatus a3 OR OverFlowBit\<rparr>
         else a3\<lparr>ProgStatus := ProgStatus a3 AND NOT OverFlowBit\<rparr>)"

text \<open>\<open>regAddr\<close> takes the register index \<open>r\<close>; its body does not mention it.\<close>

definition regAddr :: "ALU \<Rightarrow> u8 \<Rightarrow> u8" where
  "regAddr a r = (drop_bit 3 (ProgStatus a) AND 0x03) * 8"

definition InstrXCHInd :: "ALU \<Rightarrow> bool \<Rightarrow> ALU" where
  "InstrXCHInd a R1 =
     (let regLoc = (if R1 then regAddr a 1 else regAddr a 0);
          loc = InternalRAM a regLoc
      in a\<lparr>Accum := InternalRAM a loc, InternalRAM := (InternalRAM a)(loc := Accum a)\<rparr>)"

definition InstrXCHDir :: "ALU \<Rightarrow> u8 \<Rightarrow> ALU" where
  "InstrXCHDir a reg =
     (let loc = regAddr a reg
      in a\<lparr>Accum := InternalRAM a loc, InternalRAM := (InternalRAM a)(loc := Accum a)\<rparr>)"

text \<open>\<open>func (a *ALU) InstrADDLit(literal uint8) { }\<close>: the body is empty.\<close>

definition InstrADDLit :: "ALU \<Rightarrow> u8 \<Rightarrow> ALU" where
  "InstrADDLit a literal = a"

section \<open>Opcodes and the decode table\<close>

datatype error = ErrUnknownOpCode | EOF

text \<open>\<open>type OpCode uint8\<close> with its \<open>iota\<close> constants, in the order of the source.\<close>

datatype OpCode =
    ACALL | ADD | ADDC | AJMP | ANL | CJNE | CLR | CPL | DA
  | DEC | DIV | DJNZ | INC | JB | JBC | JC | JMP | JNB
  | JNC | JNZ | JZ | LCALL | LJMP | MOV | MOVC | MOVX | MUL
  | NOP | ORL | POP | PUSH | RET | RETI | RL | RLC | RR
  | RRC | SJMP | SETB | SUBB | SWAP | XCH | XCHD | XRL | ERR

record decoded =
  len :: u8
  op :: OpCode

abbreviation D :: "u8 \<Rightarrow> OpCode \<Rightarrow> decoded" where
  "D n c \<equiv> \<lparr>len = n, op = c\<rparr>"

text \<open>
  \<open>var decodeTable = [256]decoded{...}\<close>, eight entries to a line, each line marked with
  the opcode of its first entry. The source indexes it with a byte, \<open>decodeTable[b[0]]\<close>,
  which is \<open>decodeTable ! unat b\<close> here.
\<close>

definition decodeTable :: "decoded list" where
  "decodeTable = [
     D 1 NOP, D 2 AJMP, D 3 LJMP, D 1 RR, D 1 INC, D 2 INC, D 1 INC, D 1 INC, \<comment> \<open>0x00\<close>
     D 1 INC, D 1 INC, D 1 INC, D 1 INC, D 1 INC, D 1 INC, D 1 INC, D 1 INC, \<comment> \<open>0x08\<close>
     D 3 JBC, D 2 ACALL, D 3 LCALL, D 1 RRC, D 1 DEC, D 2 DEC, D 1 DEC, D 1 DEC, \<comment> \<open>0x10\<close>
     D 1 DEC, D 1 DEC, D 1 DEC, D 1 DEC, D 1 DEC, D 1 DEC, D 1 DEC, D 1 DEC, \<comment> \<open>0x18\<close>
     D 3 JB, D 2 AJMP, D 1 RET, D 1 RL, D 2 ADD, D 2 ADD, D 1 ADD, D 1 ADD, \<comment> \<open>0x20\<close>
     D 1 ADD, D 1 ADD, D 1 ADD, D 1 ADD, D 1 ADD, D 1 ADD, D 1 ADD, D 1 ADD, \<comment> \<open>0x28\<close>
     D 3 JNB, D 2 ACALL, D 1 RETI, D 1 RLC, D 2 ADDC, D 2 ADDC, D 1 ADDC, D 1 ADDC, \<comment> \<open>0x30\<close>
     D 1 ADDC, D 1 ADDC, D 1 ADDC, D 1 ADDC, D 1 ADDC, D 1 ADDC, D 1 ADDC, D 1 ADDC, \<comment> \<open>0x38\<close>
     D 2 JC, D 2 AJMP, D 2 ORL, D 3 ORL, D 2 ORL, D 2 ORL, D 1 ORL, D 1 ORL, \<comment> \<open>0x40\<close>
     D 1 ORL, D 1 ORL, D 1 ORL, D 1 ORL, D 1 ORL, D 1 ORL, D 1 ORL, D 1 ORL, \<comment> \<open>0x48\<close>
     D 2 JNC, D 2 ACALL, D 2 ANL, D 3 ANL, D 2 ANL, D 2 ANL, D 1 ANL, D 1 ANL, \<comment> \<open>0x50\<close>
     D 1 ANL, D 1 ANL, D 1 ANL, D 1 ANL, D 1 ANL, D 1 ANL, D 1 ANL, D 1 ANL, \<comment> \<open>0x58\<close>
     D 2 JZ, D 2 AJMP, D 2 XRL, D 3 XRL, D 2 XRL, D 2 XRL, D 1 XRL, D 1 XRL, \<comment> \<open>0x60\<close>
     D 1 XRL, D 1 XRL, D 1 XRL, D 1 XRL, D 1 XRL, D 1 XRL, D 1 XRL, D 1 XRL, \<comment> \<open>0x68\<close>
     D 2 JNZ, D 2 ACALL, D 2 ORL, D 1 JMP, D 2 MOV, D 3 MOV, D 2 MOV, D 2 MOV, \<comment> \<open>0x70\<close>
     D 2 MOV, D 2 MOV, D 2 MOV, D 2 MOV, D 2 MOV, D 2 MOV, D 2 MOV, D 2 MOV, \<comment> \<open>0x78\<close>
     D 2 SJMP, D 2 AJMP, D 2 ANL, D 1 MOVC, D 1 DIV, D 3 MOV, D 2 MOV, D 2 MOV, \<comment> \<open>0x80\<close>
     D 2 MOV, D 2 MOV, D 2 MOV, D 2 MOV, D 2 MOV, D 2 MOV, D 2 MOV, D 2 MOV, \<comment> \<open>0x88\<close>
     D 3 MOV, D 2 ACALL, D 2 MOV, D 1 MOVC, D 2 SUBB, D 2 SUBB, D 1 SUBB, D 1 SUBB, \<comment> \<open>0x90\<close>
     D 1 SUBB, D 1 SUBB, D 1 SUBB, D 1 SUBB, D 1 SUBB, D 1 SUBB, D 1 SUBB, D 1 SUBB, \<comment> \<open>0x98\<close>
     D 2 ORL, D 2 AJMP, D 2 MOV, D 1 INC, D 1 MUL, D 1 ERR, D 2 MOV, D 2 MOV, \<comment> \<open>0xA0\<close>
     D 2 MOV, D 2 MOV, D 2 MOV, D 2 MOV, D 2 MOV, D 2 MOV, D 2 MOV, D 2 MOV, \<comment> \<open>0xA8\<close>
     D 2 ANL, D 2 ACALL, D 2 CPL, D 1 CPL, D 3 CJNE, D 3 CJNE, D 3 CJNE, D 3 CJNE, \<comment> \<open>0xB0\<close>
     D 3 CJNE, D 3 CJNE, D 3 CJNE, D 3 CJNE, D 3 CJNE, D 3 CJNE, D 3 CJNE, D 3 CJNE, \<comment> \<open>0xB8\<close>
     D 2 PUSH, D 2 AJMP, D 2 CLR, D 1 CLR, D 1 SWAP, D 2 XCH, D 1 XCH, D 1 XCH, \<comment> \<open>0xC0\<close>
     D 1 XCH, D 1 XCH, D 1 XCH, D 1 XCH, D 1 XCH, D 1 XCH, D 1 XCH, D 1 XCH, \<comment> \<open>0xC8\<close>
     D 2 POP, D 2 ACALL, D 2 SETB, D 1 SETB, D 1 DA, D 3 DJNZ, D 1 XCHD, D 1 XCHD, \<comment> \<open>0xD0\<close>
     D 2 DJNZ, D 2 DJNZ, D 2 DJNZ, D 2 DJNZ, D 2 DJNZ, D 2 DJNZ, D 2 DJNZ, D 2 DJNZ, \<comment> \<open>0xD8\<close>
     D 1 MOVX, D 2 AJMP, D 1 MOVX, D 1 MOVX, D 1 CLR, D 2 MOV, D 1 MOV, D 1 MOV, \<comment> \<open>0xE0\<close>
     D 1 MOV, D 1 MOV, D 1 MOV, D 1 MOV, D 1 MOV, D 1 MOV, D 1 MOV, D 1 MOV, \<comment> \<open>0xE8\<close>
     D 1 MOVX, D 2 ACALL, D 1 MOVX, D 1 MOVX, D 1 CPL, D 2 MOV, D 1 MOV, D 1 MOV, \<comment> \<open>0xF0\<close>
     D 1 MOV, D 1 MOV, D 1 MOV, D 1 MOV, D 1 MOV, D 1 MOV, D 1 MOV, D 1 MOV \<comment> \<open>0xF8\<close>
   ]"

section \<open>Code memory\<close>

text \<open>
  \<open>type CodeMemory interface { ReadAt([]byte, int64) (int, error); Size() int64 }\<close>.
  \<open>ReadAt\<close> fills the slice it is given; the model passes the slice's contents in and
  gets back its contents after the call, the count and the error (\<open>None\<close> is \<open>nil\<close>).
  Offsets and sizes are \<open>int64\<close>, the count is an \<open>int\<close>.
\<close>

record CodeMemory =
  ReadAt :: "u8 list \<Rightarrow> i64 \<Rightarrow> u8 list \<times> i64 \<times> error option"
  Size :: i64

subsection \<open>The hex file reader, an implementation of the interface\<close>

record Record =
  Offset :: u32
  Data :: "u8 list"

record File =
  CS :: u16
  IP :: u16
  EIP :: u32
  Memory :: "Record list"

definition GetSegments :: "File \<Rightarrow> u32 \<Rightarrow> u32 \<Rightarrow> Record list" where
  "GetSegments f offset n =
     filter (\<lambda>v. offset < Offset v + of_nat (length (Data v)) \<and> offset + n > Offset v)
       (Memory f)"

text \<open>
  \<open>fillByte\<close> writes through \<open>dst\<close> and returns whether it did; here \<open>Some\<close> of the
  byte written, or \<open>None\<close> for \<open>false\<close>.
\<close>

definition fillByte :: "u32 \<Rightarrow> Record \<Rightarrow> u8 \<Rightarrow> u8 option" where
  "fillByte addr r pad =
     (if addr < Offset r then Some pad
      else if addr < Offset r + of_nat (length (Data r))
      then Some (Data r ! unat (addr - Offset r))
      else None)"

text \<open>
  The inner loop of \<open>Retrieve\<close> for one destination byte. The second argument is the
  segments from \<open>segIndex\<close> on; the result is the byte stored and the segments from the
  new \<open>segIndex\<close> on.
\<close>

fun fillFrom :: "u32 \<Rightarrow> Record list \<Rightarrow> u8 \<Rightarrow> u8 \<times> Record list" where
  "fillFrom addr [] pad = (pad, [])"
| "fillFrom addr (r # rs) pad =
     (case fillByte addr r pad of
        Some v \<Rightarrow> (v, r # rs)
      | None \<Rightarrow> fillFrom addr rs pad)"

text \<open>The outer loop \<open>for i := range dst\<close>, with \<open>n\<close> bytes of \<open>dst\<close> still to fill.\<close>

fun retrieveLoop :: "u32 \<Rightarrow> nat \<Rightarrow> nat \<Rightarrow> Record list \<Rightarrow> u8 \<Rightarrow> u8 list" where
  "retrieveLoop offset i 0 s pad = []"
| "retrieveLoop offset i (Suc n) s pad =
     (let (v, s1) = fillFrom (offset + of_nat i) s pad
      in v # retrieveLoop offset (Suc i) n s1 pad)"

definition Retrieve :: "File \<Rightarrow> u32 \<Rightarrow> u8 list \<Rightarrow> u8 \<Rightarrow> u8 list" where
  "Retrieve f offset dst pad =
     retrieveLoop offset 0 (length dst) (GetSegments f offset (of_nat (length dst))) pad"

definition File_Size :: "File \<Rightarrow> i64" where
  "File_Size f =
     (if length (Memory f) = 0 then 0
      else let l = last (Memory f) in ucast (Offset l + of_nat (length (Data l))))"

text \<open>
  \<open>type FileReader struct { RetrieveSizer; Offset int64; Pad byte }\<close>. The embedded
  interface is held by a \<open>File\<close>; the reader's own \<open>Offset\<close> is \<open>ReadOffset\<close> here,
  the name \<open>Offset\<close> being the record's.
\<close>

record FileReader =
  RetrieveSizer :: File
  ReadOffset :: i64
  Pad :: u8

definition FileReader_ReadAt :: "FileReader \<Rightarrow> u8 list \<Rightarrow> i64 \<Rightarrow> u8 list \<times> i64 \<times> error option" where
  "FileReader_ReadAt fr r off =
     (let s = File_Size (RetrieveSizer fr);
          r1 = Retrieve (RetrieveSizer fr) (ucast off) r (Pad fr)
      in if s <s off + of_nat (length r) then (r1, s - off, Some EOF)
         else (r1, of_nat (length r), None))"

text \<open>A \<open>*FileReader\<close> passed where a \<open>CodeMemory\<close> is expected.\<close>

definition FileReader_CodeMemory :: "FileReader \<Rightarrow> CodeMemory" where
  "FileReader_CodeMemory fr =
     \<lparr>ReadAt = FileReader_ReadAt fr, Size = File_Size (RetrieveSizer fr)\<rparr>"

text \<open>
  A parsed hex file with one data record, the three bytes of \<open>LJMP 0x1234\<close> at
  address 0, read through a \<open>FileReader\<close> that pads with \<open>0xFF\<close>.
\<close>

definition hexImage :: FileReader where
  "hexImage = \<lparr>RetrieveSizer = \<lparr>CS = 0, IP = 0, EIP = 0,
      Memory = [\<lparr>Offset = 0, Data = [0x02, 0x12, 0x34]\<rparr>]\<rparr>, ReadOffset = 0, Pad = 0xFF\<rparr>"

section \<open>Instruction fetch\<close>

text \<open>
  \<open>c.ReadAt(b[lo:hi], off)\<close> with both results dropped, as \<open>ReadInstruction\<close> calls it:
  the bytes of \<open>b\<close> from \<open>lo\<close> up to \<open>hi\<close> are whatever the memory left in the slice.
\<close>

definition readAtSlice :: "CodeMemory \<Rightarrow> u8 list \<Rightarrow> nat \<Rightarrow> nat \<Rightarrow> i64 \<Rightarrow> u8 list" where
  "readAtSlice c b lo hi off =
     take lo b @ fst (ReadAt c (take (hi - lo) (drop lo b)) off) @ drop hi b"

text \<open>
  \<open>ReadInstruction\<close>. The second read is \<open>c.ReadAt(b[1:d.len-1], offset)\<close> in the
  source: the slice ends at \<open>d.len - 1\<close> and the read starts at \<open>offset\<close>. The error
  returned is the constant \<open>nil\<close>.
\<close>

definition ReadInstruction :: "CodeMemory \<Rightarrow> i64 \<Rightarrow> OpCode \<times> u8 list \<times> error option" where
  "ReadInstruction c offset =
     (let b0 = replicate 3 0;
          b1 = readAtSlice c b0 0 1 offset;
          d = decodeTable ! unat (b1 ! 0);
          b2 = (if len d > 1 then readAtSlice c b1 1 (unat (len d - 1)) offset else b1)
      in (op d, take (unat (len d)) b2, None))"

section \<open>Dispatch and the CPU\<close>

text \<open>
  The callbacks and the external RAM are Go closures and an interface value that no
  function below calls; they are kept as opaque values. \<open>*ALU\<close> is a pointer:
  \<open>None\<close> is \<open>nil\<close>.
\<close>

typedecl InputCallback
typedecl OutputCallback
typedecl RAM

record CPU =
  alu :: "ALU option"
  ReadCallbacks :: "u8 \<Rightarrow> InputCallback option"
  WriteCallbacks :: "u8 \<Rightarrow> OutputCallback option"
  ExtRAM :: "RAM option"
  ProgMem :: "CodeMemory option"

text \<open>\<open>type Operation func(*CPU) error\<close>; a function value may be \<open>nil\<close>.\<close>

type_synonym Operation = "CPU \<Rightarrow> error option \<times> CPU"

text \<open>
  \<open>DecodeInstruction\<close>: a \<open>switch\<close> whose cases are all empty (Go does not fall
  through), followed by \<open>return nil\<close>.
\<close>

definition DecodeInstruction :: "OpCode \<Rightarrow> u8 list \<Rightarrow> Operation option" where
  "DecodeInstruction opc data =
     (case opc of
        ANL \<Rightarrow> None | CJNE \<Rightarrow> None | CLR \<Rightarrow> None | CPL \<Rightarrow> None | DA \<Rightarrow> None |
        DEC \<Rightarrow> None | DIV \<Rightarrow> None | DJNZ \<Rightarrow> None | INC \<Rightarrow> None | JB \<Rightarrow> None |
        JBC \<Rightarrow> None | JC \<Rightarrow> None | JMP \<Rightarrow> None | JNB \<Rightarrow> None | JNC \<Rightarrow> None |
        JNZ \<Rightarrow> None | JZ \<Rightarrow> None | MOV \<Rightarrow> None | MOVC \<Rightarrow> None | MOVX \<Rightarrow> None |
        NOP \<Rightarrow> None | ORL \<Rightarrow> None | RL \<Rightarrow> None | RLC \<Rightarrow> None | RR \<Rightarrow> None |
        RRC \<Rightarrow> None | SJMP \<Rightarrow> None | SETB \<Rightarrow> None | SUBB \<Rightarrow> None | XCHD \<Rightarrow> None |
        XRL \<Rightarrow> None |
        _ \<Rightarrow> None)"

definition Step :: "CPU \<Rightarrow> error option \<times> CPU" where
  "Step c = (None, c)"

section \<open>Properties of the stack and of control transfer\<close>

lemma join_bytes:
  "push_bit 8 (ucast (ucast (drop_bit 8 w) :: u8) :: u16) OR ucast (ucast w :: u8) = w"
  by (rule bit_word_eqI) (auto simp add: bit_simps)

lemma page_masks_disjoint: "(x AND 0xF800) AND (y AND 0x7FF) = (0 :: u16)"
proof -
  have "(x AND 0xF800) AND (y AND 0x7FF) = (x AND y) AND (0xF800 AND 0x7FF)"
    by (simp add: ac_simps)
  also have "(0xF800 AND 0x7FF) = (0 :: u16)"
    by simp
  finally show ?thesis
    by simp
qed

lemma PopByte_PushByte: "PopByte (PushByte a b) = (b, (PushByte a b)\<lparr>StackPtr := StackPtr a\<rparr>)"
  by (simp add: PopByte_def PushByte_def Let_def)

lemma PopWord_PushWord: "PopWord (PushWord a w) = (w, (PushWord a w)\<lparr>StackPtr := StackPtr a\<rparr>)"
  by (simp add: PopWord_def PushWord_def Let_def join_bytes)

text \<open>
  C5: for every 16-bit word \<open>w\<close> and every ALU state, \<open>PushWord w\<close> followed by
  \<open>PopWord\<close> returns \<open>w\<close> and leaves \<open>StackPtr\<close> at its value before the push. The
  stack pointer is a byte, so this includes the states where it wraps past 0xFF.
\<close>

theorem PushWord_PopWord_roundtrip:
  "fst (PopWord (PushWord a w)) = w \<and>
   StackPtr (snd (PopWord (PushWord a w))) = StackPtr a"
  by (simp add: PopWord_PushWord)

text \<open>
  C6: for every program counter and every offset, \<open>InstrAJMP\<close> sets the program
  counter to \<open>((pc + 2) AND 0xF800) OR (rel AND 0x7FF)\<close>, where \<open>pc\<close> is the program
  counter at the start of the two-byte instruction; from \<open>pc = 0x07FE\<close> with offset 0
  the result is \<open>0x0800\<close>.
\<close>

theorem InstrAJMP_target:
  "ProgCount (InstrAJMP a rel) = ((ProgCount a + 2) AND 0xF800) OR (rel AND 0x7FF) \<and>
   ProgCount (InstrAJMP (a\<lparr>ProgCount := 0x07FE\<rparr>) 0) = 0x0800"
proof -
  have "((ProgCount a + 2) AND 0xF800) + (rel AND 0x7FF)
      = ((ProgCount a + 2) AND 0xF800) OR (rel AND 0x7FF)"
    by (rule disjunctive_add_eq_or) (rule page_masks_disjoint)
  then show ?thesis
    by (simp add: InstrAJMP_def)
qed

text \<open>
  C7: from program counter \<open>P\<close> and stack pointer \<open>S\<close>, \<open>InstrLCALL addr\<close> stores the
  low byte of \<open>P + 3\<close> at \<open>S + 1\<close> and its high byte at \<open>S + 2\<close>, leaves the stack
  pointer at \<open>S + 2\<close> and sets the program counter to \<open>addr\<close>; \<open>InstrRET\<close> executed
  next sets the program counter to \<open>P + 3\<close> and the stack pointer to \<open>S\<close>.
\<close>

theorem InstrLCALL_then_InstrRET:
  "InternalRAM (InstrLCALL a addr) (StackPtr a + 1) = ucast (ProgCount a + 3) \<and>
   InternalRAM (InstrLCALL a addr) (StackPtr a + 2) = ucast (drop_bit 8 (ProgCount a + 3)) \<and>
   StackPtr (InstrLCALL a addr) = StackPtr a + 2 \<and>
   ProgCount (InstrLCALL a addr) = addr \<and>
   ProgCount (InstrRET (InstrLCALL a addr)) = ProgCount a + 3 \<and>
   StackPtr (InstrRET (InstrLCALL a addr)) = StackPtr a"
  by (simp add: InstrLCALL_def InstrRET_def PopWord_def PushWord_def Let_def join_bytes)

section \<open>The decode table\<close>

lemma decodeTable_length: "length decodeTable = 256"
  by (simp add: decodeTable_def)

lemma decodeTable_lens: "list_all (\<lambda>d. len d \<in> {1, 2, 3}) decodeTable"
  by (simp add: decodeTable_def)

lemma decodeTable_ERR:
  "map (\<lambda>d. op d = ERR) decodeTable = replicate 165 False @ [True] @ replicate 90 False"
  by (simp add: decodeTable_def eval_nat_numeral)

lemma unat_u8_less: "unat (b :: u8) < 256"
  using unsigned_less [of b, where ?'a = nat] by simp

lemma unat_u8_A5: "(unat (b :: u8) = 165) = (b = 0xA5)"
proof -
  have "(b = 0xA5) = (unat b = unat (0xA5 :: u8))"
    by (rule word_unat_eq_iff)
  then show ?thesis
    by simp
qed

text \<open>
  C8: the decode table has 256 entries, so indexing it with any opcode byte is
  defined; for every opcode byte the entry's length is 1, 2 or 3, and the entry's
  mnemonic is the sentinel \<open>ERR\<close> exactly when the opcode is \<open>0xA5\<close>.
\<close>

theorem decodeTable_total:
  "length decodeTable = 256 \<and>
   len (decodeTable ! unat (b :: u8)) \<in> {1, 2, 3} \<and>
   (op (decodeTable ! unat b) = ERR) = (b = 0xA5)"
proof -
  have in_table: "decodeTable ! unat b \<in> set decodeTable"
    by (rule nth_mem) (simp add: decodeTable_length unat_u8_less)
  have "\<forall>d \<in> set decodeTable. len d \<in> {1, 2, 3}"
    using decodeTable_lens by (simp only: list_all_iff)
  with in_table have lens: "len (decodeTable ! unat b) \<in> {1, 2, 3}"
    by blast
  have "(op (decodeTable ! unat b) = ERR) = map (\<lambda>d. op d = ERR) decodeTable ! unat b"
    by (simp add: decodeTable_length unat_u8_less)
  also have "\<dots> = (replicate 165 False @ [True] @ replicate 90 False) ! unat b"
    by (simp only: decodeTable_ERR)
  also have "\<dots> = (unat b = 165)"
    using unat_u8_less [of b] by (auto simp add: nth_append nth_Cons')
  finally have "(op (decodeTable ! unat b) = ERR) = (b = 0xA5)"
    by (simp only: unat_u8_A5)
  with lens show ?thesis
    by (simp add: decodeTable_length)
qed


section \<open>The CPU driver\<close>

text \<open>
  C10: for every CPU state \<open>Step\<close> returns \<open>nil\<close> and the CPU is as it was: nothing
  is fetched or dispatched and the program counter does not move.
\<close>

theorem Step_returns_nil: "Step c = (None, c)"
  by (simp add: Step_def)

section \<open>Where the source departs from its documentation\<close>

lemma regAddr_bank_base: "regAddr a r = (drop_bit 3 (ProgStatus a) AND 0x03) * 8"
  by (simp add: regAddr_def)

lemma InstrXCHInd_same_register: "InstrXCHInd a True = InstrXCHInd a False"
  by (simp add: InstrXCHInd_def regAddr_def)

text \<open>
  C1: the claim is that \<open>regAddr n\<close> is the bank base plus \<open>n\<close>, so that R0 and R7
  of one bank have different addresses. The source returns the bank base alone: R0
  and R7 get the same address in every state, and in bank 0 the address of R7 is 0
  where the claim gives 7.
\<close>

theorem regAddr_ignores_index:
  "regAddr a 0 = regAddr a 7 \<and> regAddr zeroALU 7 = 0"
  by (simp add: regAddr_def zeroALU_def)

lemma InstrMUL_BReg: "BReg (InstrMUL a) = 0"
proof -
  have "drop_bit 16 res = 0" for res :: u16
    by (rule bit_word_eqI) (simp add: bit_simps)
  then show ?thesis
    by (simp add: InstrMUL_def Let_def)
qed

text \<open>
  C3: the claim is that \<open>InstrMUL\<close> leaves the high byte of the product in
  \<open>BReg\<close>: \<open>0x9C\<close> for \<open>200 * 200\<close>. The source shifts the 16-bit product right by 16
  instead of 8, so \<open>BReg\<close> is 0 after the instruction. The low byte, the cleared
  Carry and the set Overflow are as claimed.
\<close>

theorem InstrMUL_200_200:
  "BReg (InstrMUL (zeroALU\<lparr>Accum := 200, BReg := 200\<rparr>)) = 0 \<and>
   Accum (InstrMUL (zeroALU\<lparr>Accum := 200, BReg := 200\<rparr>)) = 0x40 \<and>
   ProgStatus (InstrMUL (zeroALU\<lparr>Accum := 200, BReg := 200\<rparr>)) AND CarryBit = 0 \<and>
   ProgStatus (InstrMUL (zeroALU\<lparr>Accum := 200, BReg := 200\<rparr>)) AND OverFlowBit = OverFlowBit"
  by (simp add: InstrMUL_def zeroALU_def Let_def CarryBit_def OverFlowBit_def)

text \<open>
  C9: the claim is that ADD of the literal \<open>0x01\<close> to accumulator \<open>0xFF\<close> gives
  accumulator \<open>0x00\<close> with Carry and AuxCarry set. \<open>InstrADDLit\<close> has an empty body:
  the accumulator is still \<open>0xFF\<close> and Carry and AuxCarry are still clear.
\<close>

theorem InstrADDLit_FF_01:
  "Accum (InstrADDLit (zeroALU\<lparr>Accum := 0xFF\<rparr>) 0x01) = 0xFF \<and>
   ProgStatus (InstrADDLit (zeroALU\<lparr>Accum := 0xFF\<rparr>) 0x01) AND CarryBit = 0 \<and>
   ProgStatus (InstrADDLit (zeroALU\<lparr>Accum := 0xFF\<rparr>) 0x01) AND AuxCarryBit = 0"
  by (simp add: InstrADDLit_def zeroALU_def)

section \<open>Fetch and dispatch\<close>

lemma decodeTable_at_02: "decodeTable ! 2 = D 3 LJMP"
  by (simp add: decodeTable_def)

lemma decodeTable_at_34: "decodeTable ! 52 = D 2 ADDC"
  by (simp add: decodeTable_def)

lemma decodeTable_at_FF: "decodeTable ! 255 = D 1 MOV"
  by (simp add: decodeTable_def)

lemma buffer3: "replicate 3 (0 :: u8) = [0, 0, 0]"
  by (simp add: numeral_3_eq_3)

lemma hexImage_ReadAt_0: "ReadAt (FileReader_CodeMemory hexImage) [x] 0 = ([0x02], 1, None)"
  by (simp add: FileReader_CodeMemory_def FileReader_ReadAt_def word_sless_alt
      hexImage_def File_Size_def Retrieve_def GetSegments_def fillByte_def Let_def)

lemma hexImage_ReadAt_2: "ReadAt (FileReader_CodeMemory hexImage) [x] 2 = ([0x34], 1, None)"
  by (simp add: FileReader_CodeMemory_def FileReader_ReadAt_def word_sless_alt
      hexImage_def File_Size_def Retrieve_def GetSegments_def fillByte_def Let_def)

lemma hexImage_ReadAt_2_empty: "ReadAt (FileReader_CodeMemory hexImage) [] 2 = ([], 0, None)"
  by (simp add: FileReader_CodeMemory_def FileReader_ReadAt_def word_sless_alt
      hexImage_def File_Size_def Retrieve_def GetSegments_def fillByte_def Let_def)

lemma hexImage_ReadAt_3: "ReadAt (FileReader_CodeMemory hexImage) [x] 3 = ([0xFF], 0, Some EOF)"
  by (simp add: FileReader_CodeMemory_def FileReader_ReadAt_def word_sless_alt
      hexImage_def File_Size_def Retrieve_def GetSegments_def fillByte_def Let_def)

text \<open>
  The comparison \<open>off+int64(len(r)) > s\<close> wraps: at the largest \<open>int64\<close> offset the
  sum is negative, so the reader reports a full read of the pad byte.
\<close>

lemma hexImage_ReadAt_MaxInt64:
  "ReadAt (FileReader_CodeMemory hexImage) [x] 0x7FFFFFFFFFFFFFFF = ([0xFF], 1, None)"
  by (simp add: FileReader_CodeMemory_def FileReader_ReadAt_def word_sless_alt
      hexImage_def File_Size_def Retrieve_def GetSegments_def fillByte_def Let_def)

lemma fetch_at_0:
  "ReadInstruction (FileReader_CodeMemory hexImage) 0 = (LJMP, [0x02, 0x02, 0x00], None)"
proof -
  let ?c = "FileReader_CodeMemory hexImage"
  have b1: "readAtSlice ?c [0, 0, 0] 0 (Suc 0) 0 = [2, 0, 0]"
    by (simp add: readAtSlice_def hexImage_ReadAt_0)
  have b2: "readAtSlice ?c [2, 0, 0] (Suc 0) 2 0 = [2, 2, 0]"
    by (simp add: readAtSlice_def hexImage_ReadAt_0)
  show ?thesis
    by (simp add: ReadInstruction_def Let_def buffer3 b1 decodeTable_at_02 b2)
qed

lemma fetch_at_2:
  "ReadInstruction (FileReader_CodeMemory hexImage) 2 = (ADDC, [0x34, 0x00], None)"
proof -
  let ?c = "FileReader_CodeMemory hexImage"
  have b1: "readAtSlice ?c [0, 0, 0] 0 (Suc 0) 2 = [0x34, 0, 0]"
    by (simp add: readAtSlice_def hexImage_ReadAt_2)
  have b2: "readAtSlice ?c [0x34, 0, 0] (Suc 0) (Suc 0) 2 = [0x34, 0, 0]"
    by (simp add: readAtSlice_def hexImage_ReadAt_2_empty)
  show ?thesis
    by (simp add: ReadInstruction_def Let_def buffer3 b1 decodeTable_at_34 b2)
qed

lemma fetch_at_3:
  "ReadInstruction (FileReader_CodeMemory hexImage) 3 = (MOV, [0xFF], None)"
proof -
  let ?c = "FileReader_CodeMemory hexImage"
  have b1: "readAtSlice ?c [0, 0, 0] 0 (Suc 0) 3 = [0xFF, 0, 0]"
    by (simp add: readAtSlice_def hexImage_ReadAt_3)
  show ?thesis
    by (simp add: ReadInstruction_def Let_def buffer3 b1 decodeTable_at_FF)
qed

lemma ReadInstruction_err: "snd (snd (ReadInstruction c offset)) = None"
  by (simp add: ReadInstruction_def Let_def)

lemma DecodeInstruction_nil: "DecodeInstruction opc data = None"
  by (cases opc) (simp_all add: DecodeInstruction_def)

text \<open>
  C2: the claim is that the fetch returns the opcode byte and the \<open>length - 1\<close> bytes
  after it, and fails when a read is short or reports an error. On the three-byte image
  \<open>02 12 34\<close> the source returns \<open>02 02 00\<close> with a \<open>nil\<close> error for the \<open>LJMP\<close> at
  offset 0: its second read fills \<open>b[1:len-1]\<close> from \<open>offset\<close>, one byte short and one
  address early. At offset 2 the two-byte \<open>ADDC\<close> has its operand beyond the end of
  the image and comes back as \<open>34 00\<close> with a \<open>nil\<close> error. At offset 3 the read of
  the opcode itself reports \<open>EOF\<close> with no byte read, and the fetch still returns the
  pad byte as a \<open>MOV\<close> with a \<open>nil\<close> error.
\<close>

theorem ReadInstruction_drops_operands_and_errors:
  "ReadInstruction (FileReader_CodeMemory hexImage) 0 = (LJMP, [0x02, 0x02, 0x00], None) \<and>
   ReadInstruction (FileReader_CodeMemory hexImage) 2 = (ADDC, [0x34, 0x00], None) \<and>
   ReadAt (FileReader_CodeMemory hexImage) [0] 3 = ([0xFF], 0, Some EOF) \<and>
   ReadInstruction (FileReader_CodeMemory hexImage) 3 = (MOV, [0xFF], None)"
  by (simp only: fetch_at_0 fetch_at_2 fetch_at_3 hexImage_ReadAt_3 simp_thms)

text \<open>
  C4: the claim is that dispatching opcode \<open>0xA5\<close> fails with the unknown-opcode
  error. The table maps \<open>0xA5\<close> to \<open>ERR\<close>, and \<open>DecodeInstruction\<close> has no case for
  \<open>ERR\<close>: it returns a \<open>nil\<close> operation, as it does for every mnemonic, and
  \<open>ErrUnknownOpCode\<close> is returned nowhere.
\<close>

theorem DecodeInstruction_ERR_nil:
  "op (decodeTable ! unat (0xA5 :: u8)) = ERR \<and> DecodeInstruction ERR [0xA5] = None"
  by (simp add: decodeTable_def DecodeInstruction_def)

end
